theory Spec2Isabelle
  imports Complex_Main "HOL-Library.Sublist"
begin

section \<open>Strings\<close>

text \<open>
  A JavaScript string is a sequence of UTF-16 code units; a code unit is kept as the
  natural number it is (below 65536). \<open>str\<close> writes an ASCII literal as the string
  of its code units.
\<close>

type_synonym jsstring = "nat list"

definition str :: "string \<Rightarrow> jsstring" where
  "str s = map of_char s"

text \<open>
  \<open>String.prototype.trim\<close> removes white space and line terminators from both ends.
  ECMAScript fixes the set: TAB, VT, FF, the byte order mark U+FEFF and the code
  points of the Unicode category of space separators (SPACE, NO-BREAK SPACE, U+1680,
  U+2000 to U+200A, U+202F, U+205F, U+3000) are white space; LF, CR, U+2028 and
  U+2029 are line terminators. Each of them is one code unit.
\<close>

definition isWhiteSpace :: "nat \<Rightarrow> bool" where
  "isWhiteSpace u \<longleftrightarrow>
     u \<in> {0x09, 0x0A, 0x0B, 0x0C, 0x0D, 0x20, 0xA0, 0x1680, 0x2028, 0x2029,
           0x202F, 0x205F, 0x3000, 0xFEFF}
     \<or> (0x2000 \<le> u \<and> u \<le> 0x200A)"

definition trim :: "jsstring \<Rightarrow> jsstring" where
  "trim s = rev (dropWhile isWhiteSpace (rev (dropWhile isWhiteSpace s)))"

section \<open>Values of the JavaScript runtime\<close>

text \<open>
  The service module \<open>geminiService.ts\<close> works on what \<open>JSON.parse\<close> hands back.
  TypeScript's \<open>as T\<close> is erased at run time, so the values that flow through the
  entry points are plain JSON values, whatever type the signatures announce.
  An object is kept as the list of its own properties (keys are distinct after
  \<open>JSON.parse\<close>); a number is the real number the double denotes.
\<close>

datatype json =
    JNull
  | JBool bool
  | JNum real
  | JStr jsstring
  | JArr "json list"
  | JObj "(jsstring \<times> json) list"

text \<open>JavaScript truthiness, restricted to the values \<open>JSON.parse\<close> can produce.\<close>

fun truthy :: "json \<Rightarrow> bool" where
  "truthy JNull = False"
| "truthy (JBool b) = b"
| "truthy (JNum x) = (x \<noteq> 0)"
| "truthy (JStr s) = (s \<noteq> [])"
| "truthy (JArr xs) = True"
| "truthy (JObj kvs) = True"

text \<open>\<open>Array.isArray(v)\<close>.\<close>

fun isArray :: "json \<Rightarrow> bool" where
  "isArray (JArr xs) = True"
| "isArray v = False"

text \<open>
  \<open>v?.k\<close>: optional chaining gives \<open>undefined\<close> (here \<open>None\<close>) on \<open>null\<close>, and the
  property otherwise. The keys the source reads this way are \<open>flashcards\<close>, \<open>mcqs\<close>
  and \<open>snippets\<close>; none of them is a member of the prototypes of arrays, strings,
  numbers or booleans, so on those values the lookup is \<open>undefined\<close> as well.
\<close>

fun optional_get :: "json \<Rightarrow> jsstring \<Rightarrow> json option" where
  "optional_get JNull k = None"
| "optional_get (JObj kvs) k = map_of kvs k"
| "optional_get v k = None"

text \<open>\<open>a || b\<close> where \<open>a\<close> may be \<open>undefined\<close>: the left operand when it is truthy.\<close>

fun or_else :: "json option \<Rightarrow> json \<Rightarrow> json" where
  "or_else None d = d"
| "or_else (Some v) d = (if truthy v then v else d)"

text \<open>Whether a value is an object that has \<open>k\<close> among its own properties.\<close>

fun has_field :: "json \<Rightarrow> jsstring \<Rightarrow> bool" where
  "has_field (JObj kvs) k = (k \<in> fst ` set kvs)"
| "has_field v k = False"

text \<open>\<open>typeof v === 'string'\<close>.\<close>

fun isString :: "json \<Rightarrow> bool" where
  "isString (JStr s) = True"
| "isString v = False"

section \<open>The generation client\<close>

subsection \<open>Outcomes of the remote call, errors and the console\<close>

text \<open>
  \<open>await ai.models.generateContent(...)\<close> either throws or yields a response, of
  which the client reads \<open>text\<close>. What is thrown is typed \<open>unknown\<close> in the source,
  which tests it with \<open>instanceof Error\<close>: so a thrown value is either an \<open>Error\<close>
  with its message or some other value. A response may carry no text (\<open>text\<close> is
  then \<open>undefined\<close>); \<open>response.text.trim()\<close> then throws a \<open>TypeError\<close>, whose
  message is chosen by the JavaScript engine and is the argument of
  \<open>RespondsWithoutText\<close>.
\<close>

datatype thrown =
    ErrorInstance jsstring
  | OtherValue json

datatype outcome =
    Rejects thrown
  | RespondsWithoutText jsstring
  | Responds jsstring

text \<open>\<open>new Error(message)\<close>: the only kind of error the module creates.\<close>

datatype js_error = Error (message: jsstring)

text \<open>
  One \<open>console.error\<close> call is the list of its arguments. The \<open>SyntaxError\<close> that
  \<open>JSON.parse\<close> throws is logged as an opaque object.
\<close>

datatype console_arg =
    Text jsstring
  | Caught thrown
  | ParseError

type_synonym console = "console_arg list list"

text \<open>
  A settled promise: \<open>Inl\<close> is a rejection, \<open>Inr\<close> a fulfilment. Every function of
  the client returns the lines it wrote to the console together with the promise.
\<close>

type_synonym 'a promise = "console \<times> (js_error + 'a)"

subsection \<open>Output schemas\<close>

text \<open>
  The \<open>responseSchema\<close> objects of the source, built from \<open>Type.STRING\<close>,
  \<open>Type.INTEGER\<close>, \<open>Type.ARRAY\<close> (with \<open>items\<close>) and \<open>Type.OBJECT\<close> (with
  \<open>properties\<close> and \<open>required\<close>). A string node may carry a \<open>description\<close>.
\<close>

datatype schema =
    STRING "jsstring option"
  | INTEGER
  | ARRAY schema
  | OBJECT "(jsstring \<times> schema) list" "jsstring list"

definition flashcardSchema :: schema where
  "flashcardSchema =
     ARRAY (OBJECT [(str ''question'', STRING None), (str ''answer'', STRING None)]
                   [(str ''question''), (str ''answer'')])"

definition mcqSchema :: schema where
  "mcqSchema =
     ARRAY (OBJECT
       [(str ''question'', STRING None),
        (str ''options'', ARRAY (STRING None)),
        (str ''correctAnswer'', STRING None),
        (str ''explanation'', STRING (Some
           (str ''A brief explanation of why the correct answer is correct, to be shown to the user after they answer.'')))]
       [(str ''question''), (str ''options''), (str ''correctAnswer''), (str ''explanation'')])"

definition searchSchema :: schema where
  "searchSchema = OBJECT [(str ''snippets'', ARRAY (STRING None))] [(str ''snippets'')]"

definition conceptMapSchema :: schema where
  "conceptMapSchema =
     OBJECT
       [(str ''nodes'', ARRAY (OBJECT [(str ''id'', STRING None), (str ''group'', INTEGER)]
                                  [(str ''id''), (str ''group'')])),
        (str ''links'', ARRAY (OBJECT [(str ''source'', STRING None), (str ''target'', STRING None),
                                   (str ''value'', INTEGER)]
                                  [(str ''source''), (str ''target''), (str ''value'')]))]
       [(str ''nodes''), (str ''links'')]"

subsection \<open>\<open>handleApiError\<close> and \<open>generateWithSchema\<close>\<close>

text \<open>
  \<open>handleApiError(error, context)\<close> logs the error and rejects with a new \<open>Error\<close>
  whose message depends on whether the caught value is an \<open>Error\<close>.
\<close>

fun handleApiError :: "thrown \<Rightarrow> jsstring \<Rightarrow> 'a promise" where
  "handleApiError (ErrorInstance m) context =
     ([[Text (str ''Error during '' @ [0x27] @ context @ [0x27] @ (str '':'')),
        Caught (ErrorInstance m)]],
      Inl (Error (str ''API Error during '' @ context @ (str '': '') @ m)))"
| "handleApiError (OtherValue v) context =
     ([[Text (str ''Error during '' @ [0x27] @ context @ [0x27] @ (str '':'')),
        Caught (OtherValue v)]],
      Inl (Error (str ''An unknown error occurred during '' @ context @ (str ''.''))))"

text \<open>
  \<open>generateWithSchema(model, prompt, schema, context)\<close>. The model name, the prompt
  and the schema only travel to the backend; what comes back is the outcome of that
  one call, which is an input here. \<open>JSON.parse\<close> is a built-in of the language and
  is a parameter: \<open>None\<close> stands for its \<open>SyntaxError\<close>. The \<open>Promise.reject\<close>
  returned from the inner \<open>catch\<close> is not awaited, so the outer \<open>catch\<close> does not see
  it and the rejection reaches the caller as it is. \<open>response.text.trim()\<close> stands
  in the outer \<open>try\<close>: the \<open>TypeError\<close> of a response without text is caught there
  and handed to \<open>handleApiError\<close>.
\<close>

definition generateWithSchema ::
  "(jsstring \<Rightarrow> json option) \<Rightarrow> outcome \<Rightarrow> schema \<Rightarrow> jsstring \<Rightarrow> json promise" where
  "generateWithSchema JSON_parse response schema context =
     (case response of
        Rejects e \<Rightarrow> handleApiError e context
      | RespondsWithoutText typeErrorMessage \<Rightarrow>
          handleApiError (ErrorInstance typeErrorMessage) context
      | Responds text \<Rightarrow>
          (let jsonText = trim text in
           case JSON_parse jsonText of
             Some v \<Rightarrow> ([], Inr v)
           | None \<Rightarrow>
               ([[Text (str ''JSON parsing error during '' @ [0x27] @ context @ [0x27] @ (str '':'')),
                  ParseError],
                 [Text (str ''Received malformed text from API:''), Text jsonText]],
                Inl (Error (str ''The API returned an invalid format for '' @ context @
                            (str ''. Please try again.''))))))"

text \<open>\<open>await p\<close> followed by a computation on the value: a rejection passes through.\<close>

definition await_then :: "'a promise \<Rightarrow> ('a \<Rightarrow> 'b) \<Rightarrow> 'b promise" where
  "await_then p f = (case p of (out, Inl e) \<Rightarrow> (out, Inl e) | (out, Inr v) \<Rightarrow> (out, Inr (f v)))"

subsection \<open>Entry points\<close>

definition generateFlashcards :: "(jsstring \<Rightarrow> json option) \<Rightarrow> outcome \<Rightarrow> json promise" where
  "generateFlashcards JSON_parse response =
     await_then (generateWithSchema JSON_parse response flashcardSchema (str ''flashcard generation''))
       (\<lambda>result. if isArray result then result
                 else or_else (optional_get result (str ''flashcards'')) (JArr []))"

definition generateMCQs :: "(jsstring \<Rightarrow> json option) \<Rightarrow> outcome \<Rightarrow> json promise" where
  "generateMCQs JSON_parse response =
     await_then (generateWithSchema JSON_parse response mcqSchema (str ''MCQ generation''))
       (\<lambda>result. if isArray result then result
                 else or_else (optional_get result (str ''mcqs'')) (JArr []))"

definition performSemanticSearch :: "(jsstring \<Rightarrow> json option) \<Rightarrow> outcome \<Rightarrow> json promise" where
  "performSemanticSearch JSON_parse response =
     await_then (generateWithSchema JSON_parse response searchSchema (str ''semantic search''))
       (\<lambda>result. or_else (optional_get result (str ''snippets'')) (JArr []))"

definition emptyConceptMap :: json where
  "emptyConceptMap = JObj [(str ''nodes'', JArr []), (str ''links'', JArr [])]"

definition generateConceptMapData :: "(jsstring \<Rightarrow> json option) \<Rightarrow> outcome \<Rightarrow> json promise" where
  "generateConceptMapData JSON_parse response =
     await_then (generateWithSchema JSON_parse response conceptMapSchema (str ''concept map generation''))
       (\<lambda>result. or_else (Some result) emptyConceptMap)"

definition generateConceptMapForTopic ::
  "(jsstring \<Rightarrow> json option) \<Rightarrow> outcome \<Rightarrow> jsstring \<Rightarrow> json promise" where
  "generateConceptMapForTopic JSON_parse response topic =
     await_then (generateWithSchema JSON_parse response conceptMapSchema
                   (str ''concept map generation for topic '' @ [0x22] @ topic @ [0x22]))
       (\<lambda>result. or_else (Some result) emptyConceptMap)"

section \<open>The semantic search component\<close>

text \<open>
  \<open>SemanticSearch.tsx\<close> keeps its state in React hooks and reads \<open>ingestedText\<close>,
  \<open>llm\<close> and \<open>addNotification\<close> from the application context of \<open>AppContext.tsx\<close>;
  it persists the search history in \<open>localStorage\<close>. All of it is one record here.
  The store holds, under a key, the list that the source writes there through
  \<open>JSON.stringify\<close>. \<open>results\<close> is whatever \<open>performSemanticSearch\<close> is fulfilled
  with.
\<close>

datatype NotificationType = error | success | info

record notification =
  note_id :: nat
  note_message :: jsstring
  note_type :: NotificationType

record ui_state =
  ingestedText :: "jsstring option"
  llm :: jsstring
  notifications :: "notification list"
  query :: jsstring
  isLoading :: bool
  topK :: nat
  results :: json
  searchAttempted :: bool
  searchHistory :: "jsstring list"
  localStorage :: "jsstring \<rightharpoonup> jsstring list"

definition SEARCH_HISTORY_KEY :: jsstring where
  "SEARCH_HISTORY_KEY = (str ''semanticSearchHistory'')"

text \<open>The initial values of the hooks, with an empty store.\<close>

definition initialState :: ui_state where
  "initialState =
     \<lparr>ingestedText = None, llm = (str ''gemini-2.5-flash''), notifications = [],
      query = [], isLoading = False, topK = 4, results = JArr [],
      searchAttempted = False, searchHistory = [], localStorage = Map.empty\<rparr>"

text \<open>
  \<open>addNotification(message, type = 'error')\<close> appends a notification whose id is
  \<open>Date.now()\<close>, an input here. Its removal by a timer five seconds later is not
  part of the model.
\<close>

definition addNotification ::
  "nat \<Rightarrow> jsstring \<Rightarrow> NotificationType \<Rightarrow> ui_state \<Rightarrow> ui_state" where
  "addNotification now msg ty st =
     st\<lparr>notifications :=
          notifications st @ [\<lparr>note_id = now, note_message = msg, note_type = ty\<rparr>]\<rparr>"

text \<open>
  \<open>updateSearchHistory(newQuery)\<close>: the list \<open>updatedHistory\<close> it computes, and the
  two places it writes it to. \<open>String.prototype.toLowerCase\<close> is a built-in of the
  language that works from the Unicode case tables; like \<open>JSON.parse\<close> it is a
  parameter.
\<close>

definition updatedHistory ::
  "(jsstring \<Rightarrow> jsstring) \<Rightarrow> jsstring list \<Rightarrow> jsstring \<Rightarrow> jsstring list" where
  "updatedHistory toLowerCase history newQuery =
     take 10 (newQuery #
              filter (\<lambda>item. toLowerCase item \<noteq> toLowerCase newQuery) history)"

definition updateSearchHistory ::
  "(jsstring \<Rightarrow> jsstring) \<Rightarrow> jsstring \<Rightarrow> ui_state \<Rightarrow> ui_state" where
  "updateSearchHistory toLowerCase newQuery st =
     (let updated = updatedHistory toLowerCase (searchHistory st) newQuery
      in st\<lparr>searchHistory := updated,
            localStorage := (localStorage st)(SEARCH_HISTORY_KEY \<mapsto> updated)\<rparr>)"

text \<open>
  \<open>runSearch(currentQuery)\<close>. \<open>!ingestedText\<close> holds for \<open>null\<close> and for the empty
  string. \<open>response\<close> is the outcome of the backend call that the run makes once
  both guards are passed. The \<open>finally\<close> block runs on both paths.
\<close>

definition runSearch ::
  "(jsstring \<Rightarrow> json option) \<Rightarrow> (jsstring \<Rightarrow> jsstring) \<Rightarrow> outcome \<Rightarrow> nat \<Rightarrow> jsstring
     \<Rightarrow> ui_state \<Rightarrow> console \<times> ui_state" where
  "runSearch JSON_parse toLowerCase response now currentQuery st =
     (if ingestedText st = None \<or> ingestedText st = Some [] then
        ([], addNotification now (str ''Please ingest some text first.'') info st)
      else if trim currentQuery = [] then
        ([], addNotification now (str ''Please enter a search query.'') info st)
      else
        let st1 = st\<lparr>isLoading := True, searchAttempted := True, results := JArr []\<rparr>;
            st2 = updateSearchHistory toLowerCase currentQuery st1;
            (out, settled) = performSemanticSearch JSON_parse response;
            st3 = (case settled of
                     Inr searchResults \<Rightarrow> st2\<lparr>results := searchResults\<rparr>
                   | Inl e \<Rightarrow> addNotification now (message e) error st2)
        in (out, st3\<lparr>isLoading := False\<rparr>))"

section \<open>Spaced repetition\<close>

text \<open>
  \<open>types.ts\<close> declares the flashcard and its scheduled extension. The source's \<open>id\<close>
  is \<open>card_id\<close> here, and \<open>dueDate\<close>, an ISO date string in \<open>types.ts\<close>, is the
  calendar day as a day count.
\<close>

record Flashcard =
  question :: jsstring
  answer :: jsstring

record SRFlashcard = Flashcard +
  card_id :: jsstring
  easeFactor :: real
  interval :: nat
  dueDate :: int

datatype grade = Again | Hard | Good | Easy

text \<open>
  Modelled from the spec: the constants of the scheduler, which is not among the
  source files. The specification gives the floor of the ease factor and the minimum
  interval, and names the other values as its examples.
\<close>

definition MIN_INTERVAL :: nat where "MIN_INTERVAL = 1"
definition EASE_FLOOR :: real where "EASE_FLOOR = 1.3"
definition AGAIN_PENALTY :: real where "AGAIN_PENALTY = 0.2"
definition HARD_PENALTY :: real where "HARD_PENALTY = 0.15"
definition HARD_MULTIPLIER :: real where "HARD_MULTIPLIER = 1.2"
definition EASY_BONUS :: real where "EASY_BONUS = 0.15"
definition EASY_MULTIPLIER :: real where "EASY_MULTIPLIER = 1.3"

text \<open>
  Modelled from the spec: \<open>review(card, grade)\<close> of section 4.2, which is not among
  the source files (only \<open>SRFlashcard\<close> is declared). The grading date is supplied
  by the caller, and the new due date is that date plus the new interval.
\<close>

fun review :: "SRFlashcard \<Rightarrow> grade \<Rightarrow> int \<Rightarrow> SRFlashcard" where
  "review c Again today =
     c\<lparr>easeFactor := max EASE_FLOOR (easeFactor c - AGAIN_PENALTY),
       interval := MIN_INTERVAL,
       dueDate := today + int MIN_INTERVAL\<rparr>"
| "review c Hard today =
     (let next = max (interval c + 1) (nat (round (real (interval c) * HARD_MULTIPLIER)))
      in c\<lparr>easeFactor := max EASE_FLOOR (easeFactor c - HARD_PENALTY),
           interval := next,
           dueDate := today + int next\<rparr>)"
| "review c Good today =
     (let next = max 1 (nat (round (real (interval c) * easeFactor c)))
      in c\<lparr>interval := next, dueDate := today + int next\<rparr>)"
| "review c Easy today =
     (let next = nat (round (real (interval c) * easeFactor c * EASY_MULTIPLIER))
      in c\<lparr>easeFactor := easeFactor c + EASY_BONUS,
           interval := next,
           dueDate := today + int next\<rparr>)"

definition sampleCard :: SRFlashcard where
  "sampleCard = \<lparr>question = (str ''Q1''), answer = (str ''A1''), card_id = (str ''c1''),
                  easeFactor = 2.5, interval = 6, dueDate = 100\<rparr>"

section \<open>The shapes the specification speaks of\<close>

text \<open>
  These two predicates follow the words of the specification, not the source, which
  has no counterpart of them: they are what the claims about shapes are measured
  against. \<open>spec_satisfies_schema\<close> is conformance to a shape constraint (a string
  node wants a string, an integer node an integral number, an array node an array
  whose elements conform, an object node an object that has every required field
  and whose declared fields conform).
\<close>

fun spec_satisfies_schema :: "schema \<Rightarrow> json \<Rightarrow> bool" where
  "spec_satisfies_schema (STRING d) v = isString v"
| "spec_satisfies_schema INTEGER v = (case v of JNum x \<Rightarrow> x \<in> \<int> | _ \<Rightarrow> False)"
| "spec_satisfies_schema (ARRAY items) v =
     (case v of JArr xs \<Rightarrow> list_all (spec_satisfies_schema items) xs | _ \<Rightarrow> False)"
| "spec_satisfies_schema (OBJECT properties required) v =
     (case v of
        JObj kvs \<Rightarrow>
          list_all (\<lambda>k. map_of kvs k \<noteq> None) required
          \<and> list_all (\<lambda>p. case map_of kvs (fst p) of
                               None \<Rightarrow> True
                             | Some w \<Rightarrow> spec_satisfies_schema (snd p) w) properties
      | _ \<Rightarrow> False)"

text \<open>
  The specification's MCQ: an ordered set of options of size 4, all strings, exactly
  one of which equals \<open>correctAnswer\<close>.
\<close>

definition spec_mcq_well_formed :: "json \<Rightarrow> bool" where
  "spec_mcq_well_formed m =
     (case (optional_get m (str ''options''), optional_get m (str ''correctAnswer'')) of
        (Some (JArr opts), Some correct) \<Rightarrow>
           length opts = 4 \<and> list_all isString opts \<and> count_list opts correct = 1
      | _ \<Rightarrow> False)"

section \<open>Samples of the built-ins\<close>

text \<open>
  The theorems below hold for every decoder. Closed instances need one: this table
  lists, for a few JSON texts, the value \<open>JSON.parse\<close> returns on them; it is
  consulted at those texts, and at texts that are not JSON at all, where
  \<open>JSON.parse\<close> throws and the table has no entry.
\<close>

definition JSON_parse_sample :: "jsstring \<Rightarrow> json option" where
  \<open>JSON_parse_sample =
     map_of
       [(str ''null'', JNull),
        (str ''42'', JNum 42),
        (str ''[]'', JArr []),
        (str ''{}'', JObj []),
        (str ''[{"question":"Q1","answer":"A1"}]'',
           JArr [JObj [(str ''question'', JStr (str ''Q1'')), (str ''answer'', JStr (str ''A1''))]]),
        (str ''{"flashcards":[{"question":"Q1","answer":"A1"}]}'',
           JObj [(str ''flashcards'',
                   JArr [JObj [(str ''question'', JStr (str ''Q1'')), (str ''answer'', JStr (str ''A1''))]])]),
        (str ''{"mcqs":[]}'', JObj [(str ''mcqs'', JArr [])]),
        (str ''[{"question":"Q","options":["a"],"correctAnswer":"z","explanation":"E"}]'',
           JArr [JObj [(str ''question'', JStr (str ''Q'')), (str ''options'', JArr [JStr (str ''a'')]),
                       (str ''correctAnswer'', JStr (str ''z'')), (str ''explanation'', JStr (str ''E''))]])]\<close>

text \<open>
  Likewise for \<open>toLowerCase\<close>: on a string of ASCII code units the built-in turns
  the capital letters A to Z into the small ones and keeps every other code unit.
  The sample is consulted at such strings only.
\<close>

definition toLowerCase_sample :: "jsstring \<Rightarrow> jsstring" where
  "toLowerCase_sample s = map (\<lambda>u. if 0x41 \<le> u \<and> u \<le> 0x5A then u + 0x20 else u) s"

section \<open>Auxiliary facts\<close>

lemma generateWithSchema_Responds:
  "generateWithSchema JSON_parse (Responds reply) schema feature =
     (case JSON_parse (trim reply) of
        Some v \<Rightarrow> ([], Inr v)
      | None \<Rightarrow>
          ([[Text (str ''JSON parsing error during '' @ [0x27] @ feature @ [0x27] @ (str '':'')),
             ParseError],
            [Text (str ''Received malformed text from API:''), Text (trim reply)]],
           Inl (Error (str ''The API returned an invalid format for '' @ feature @
                       (str ''. Please try again.'')))))"
  by (simp add: generateWithSchema_def Let_def)

lemma generateWithSchema_decoded:
  "JSON_parse (trim reply) = Some v \<Longrightarrow>
     generateWithSchema JSON_parse (Responds reply) schema feature = ([], Inr v)"
  by (simp add: generateWithSchema_Responds)

lemma generateWithSchema_Rejects:
  "generateWithSchema JSON_parse (Rejects e) schema feature = handleApiError e feature"
  by (simp add: generateWithSchema_def)

lemma generateWithSchema_RespondsWithoutText:
  "generateWithSchema JSON_parse (RespondsWithoutText m) schema feature
     = handleApiError (ErrorInstance m) feature"
  by (simp add: generateWithSchema_def)

lemma await_then_rejected: "snd p = Inl e \<Longrightarrow> snd (await_then p f) = Inl e"
  by (cases p) (simp add: await_then_def)

lemma optional_get_absent: "\<not> has_field v k \<Longrightarrow> optional_get v k = None"
  by (cases v) (auto simp: map_of_eq_None_iff)

lemma or_else_default: "(\<forall>w. g = Some w \<longrightarrow> \<not> truthy w) \<Longrightarrow> or_else g d = d"
  by (cases g) auto

text \<open>Stripping the end of a list cuts it in two: what stays and what goes.\<close>

lemma strip_right_split:
  "ys = rev (dropWhile P (rev ys)) @ rev (takeWhile P (rev ys))"
proof -
  have "rev (takeWhile P (rev ys) @ dropWhile P (rev ys)) = rev (rev ys)"
    by (simp only: takeWhile_dropWhile_id)
  then show ?thesis
    by (simp only: rev_append rev_rev_ident)
qed

lemma trim_decomposition:
  "\<exists>l r. s = l @ trim s @ r \<and> list_all isWhiteSpace l \<and> list_all isWhiteSpace r"
proof -
  let ?a = "takeWhile isWhiteSpace s"
  let ?m = "dropWhile isWhiteSpace s"
  let ?b = "rev (takeWhile isWhiteSpace (rev ?m))"
  have "?m = trim s @ ?b"
    unfolding trim_def by (rule strip_right_split)
  moreover have "s = ?a @ ?m"
    by simp
  ultimately have "s = ?a @ trim s @ ?b"
    by simp
  moreover have "list_all isWhiteSpace ?a"
    unfolding list_all_iff by (blast dest: set_takeWhileD)
  moreover have "list_all isWhiteSpace ?b"
    unfolding list_all_iff set_rev by (blast dest: set_takeWhileD)
  ultimately show ?thesis
    by blast
qed

lemma trim_ends:
  assumes "trim s \<noteq> []"
  shows "\<not> isWhiteSpace (hd (trim s)) \<and> \<not> isWhiteSpace (last (trim s))"
proof -
  let ?m = "dropWhile isWhiteSpace s"
  let ?d = "dropWhile isWhiteSpace (rev ?m)"
  from assms have d: "?d \<noteq> []"
    by (simp add: trim_def)
  then have "\<not> isWhiteSpace (hd ?d)"
    by (rule hd_dropWhile)
  with d have lst: "\<not> isWhiteSpace (last (trim s))"
    by (simp add: trim_def last_rev)
  have "?m \<noteq> []"
  proof
    assume "?m = []"
    then have "?d = []" by (simp only: rev.simps dropWhile.simps)
    with d show False by contradiction
  qed
  then have hm: "\<not> isWhiteSpace (hd ?m)"
    by (rule hd_dropWhile)
  have "?m = trim s @ rev (takeWhile isWhiteSpace (rev ?m))"
    unfolding trim_def by (rule strip_right_split)
  then have "hd ?m = hd (trim s @ rev (takeWhile isWhiteSpace (rev ?m)))"
    by (rule arg_cong)
  with assms have "hd ?m = hd (trim s)"
    by (simp add: hd_append2)
  with hm lst show ?thesis
    by simp
qed





text \<open>A run of \<open>Again\<close> grades keeps a card at the floor or above, and at the minimum interval.\<close>

lemma again_fold:
  "EASE_FLOOR \<le> easeFactor c \<Longrightarrow> interval c = MIN_INTERVAL \<Longrightarrow>
     EASE_FLOOR \<le> easeFactor (fold (\<lambda>day c. review c Again day) days c)
     \<and> interval (fold (\<lambda>day c. review c Again day) days c) = MIN_INTERVAL"
  by (induction days arbitrary: c) simp_all

section \<open>Properties of the generation client\<close>

subsection \<open>Arrays, wrapper objects and everything else\<close>

text \<open>
  Claim C1, as the specification states it: a decoded array is returned directly, a
  single-key wrapper object is unwrapped, and any other decoded value is returned
  as it is. The third part fails for the entry points that unwrap: the reply \<open>{}\<close>
  decodes to the empty object, which is neither an array nor a wrapper, and
  \<open>generateFlashcards\<close> is fulfilled with the empty array, not with \<open>{}\<close>.
\<close>

theorem other_value_not_returned_as_is:
  "JSON_parse_sample (trim (str ''{}'')) = Some (JObj [])
   \<and> \<not> isArray (JObj [])
   \<and> snd (generateFlashcards JSON_parse_sample (Responds (str ''{}''))) = Inr (JArr [])
   \<and> snd (generateFlashcards JSON_parse_sample (Responds (str ''{}''))) \<noteq> Inr (JObj [])"
  by (simp add: JSON_parse_sample_def trim_def isWhiteSpace_def str_def generateFlashcards_def
      generateWithSchema_def await_then_def)

text \<open>
  Claim C1, amended. For flashcard and MCQ generation, when the trimmed reply decodes
  to \<open>v\<close>: if \<open>v\<close> is an array the call is fulfilled with \<open>v\<close>; if \<open>v\<close> is the
  single-key object \<open>{flashcards: [...]}\<close> (for MCQs, \<open>{mcqs: [...]}\<close>) it is
  fulfilled with the wrapped array, and more generally with the value of that field
  whenever the field is there and truthy, whatever other keys the object has; in
  every other case it is fulfilled with the empty array, never with \<open>v\<close> itself.
\<close>

theorem decoding_tolerance:
  assumes "JSON_parse (trim reply) = Some v"
  shows "(isArray v \<longrightarrow>
            snd (generateFlashcards JSON_parse (Responds reply)) = Inr v
          \<and> snd (generateMCQs JSON_parse (Responds reply)) = Inr v)
       \<and> (\<forall>xs. v = JObj [(str ''flashcards'', JArr xs)] \<longrightarrow>
            snd (generateFlashcards JSON_parse (Responds reply)) = Inr (JArr xs))
       \<and> (\<forall>xs. v = JObj [(str ''mcqs'', JArr xs)] \<longrightarrow>
            snd (generateMCQs JSON_parse (Responds reply)) = Inr (JArr xs))
       \<and> (\<forall>w. \<not> isArray v \<and> optional_get v (str ''flashcards'') = Some w \<and> truthy w \<longrightarrow>
            snd (generateFlashcards JSON_parse (Responds reply)) = Inr w)
       \<and> (\<forall>w. \<not> isArray v \<and> optional_get v (str ''mcqs'') = Some w \<and> truthy w \<longrightarrow>
            snd (generateMCQs JSON_parse (Responds reply)) = Inr w)
       \<and> (\<not> isArray v \<and> (\<forall>w. optional_get v (str ''flashcards'') = Some w \<longrightarrow> \<not> truthy w) \<longrightarrow>
            snd (generateFlashcards JSON_parse (Responds reply)) = Inr (JArr []))
       \<and> (\<not> isArray v \<and> (\<forall>w. optional_get v (str ''mcqs'') = Some w \<longrightarrow> \<not> truthy w) \<longrightarrow>
            snd (generateMCQs JSON_parse (Responds reply)) = Inr (JArr []))"
proof -
  have fc: "snd (generateFlashcards JSON_parse (Responds reply)) =
      Inr (if isArray v then v else or_else (optional_get v (str ''flashcards'')) (JArr []))"
    using assms by (simp add: generateFlashcards_def generateWithSchema_decoded await_then_def)
  have mc: "snd (generateMCQs JSON_parse (Responds reply)) =
      Inr (if isArray v then v else or_else (optional_get v (str ''mcqs'')) (JArr []))"
    using assms by (simp add: generateMCQs_def generateWithSchema_decoded await_then_def)
  show ?thesis
    unfolding fc mc by (auto simp: or_else_default)
qed

theorem decoding_tolerance_witness:
  \<open>JSON_parse_sample (trim (str ''[{"question":"Q1","answer":"A1"}]''))
       = Some (JArr [JObj [(str ''question'', JStr (str ''Q1'')), (str ''answer'', JStr (str ''A1''))]])
   \<and> snd (generateFlashcards JSON_parse_sample (Responds (str ''[{"question":"Q1","answer":"A1"}]'')))
       = Inr (JArr [JObj [(str ''question'', JStr (str ''Q1'')), (str ''answer'', JStr (str ''A1''))]])
   \<and> JSON_parse_sample (trim (str '' {"flashcards":[{"question":"Q1","answer":"A1"}]} ''))
       = Some (JObj [(str ''flashcards'',
            JArr [JObj [(str ''question'', JStr (str ''Q1'')), (str ''answer'', JStr (str ''A1''))]])])
   \<and> snd (generateFlashcards JSON_parse_sample
            (Responds (str '' {"flashcards":[{"question":"Q1","answer":"A1"}]} '')))
       = Inr (JArr [JObj [(str ''question'', JStr (str ''Q1'')), (str ''answer'', JStr (str ''A1''))]])\<close>
proof -
  let ?cards = "JArr [JObj [(str ''question'', JStr (str ''Q1'')), (str ''answer'', JStr (str ''A1''))]]"
  have plain: \<open>JSON_parse_sample (trim (str ''[{"question":"Q1","answer":"A1"}]'')) = Some ?cards\<close>
    by (simp add: JSON_parse_sample_def trim_def isWhiteSpace_def str_def)
  have wrapped: \<open>JSON_parse_sample (trim (str '' {"flashcards":[{"question":"Q1","answer":"A1"}]} ''))
      = Some (JObj [(str ''flashcards'', ?cards)])\<close>
    by (simp add: JSON_parse_sample_def trim_def isWhiteSpace_def str_def)
  note decoding_tolerance [where JSON_parse = JSON_parse_sample, OF plain]
    decoding_tolerance [where JSON_parse = JSON_parse_sample, OF wrapped]
  with plain wrapped show ?thesis
    by simp
qed

subsection \<open>What \<open>generateWithSchema\<close> can return\<close>

text \<open>
  Claim C2, as the specification states it: a shape-constrained call returns a value
  that satisfies the declared schema, or raises one of the two error kinds. The
  schema is only sent to the backend; the client never compares the decoded value
  with it. With the flashcard schema (an array of question and answer objects) and
  the reply \<open>42\<close>, the call is fulfilled with the number 42.
\<close>

theorem schema_not_enforced:
  "snd (generateWithSchema JSON_parse_sample (Responds (str ''42'')) flashcardSchema
          (str ''flashcard generation'')) = Inr (JNum 42)
   \<and> \<not> spec_satisfies_schema flashcardSchema (JNum 42)"
  by (simp add: JSON_parse_sample_def trim_def isWhiteSpace_def str_def
      generateWithSchema_def flashcardSchema_def)

text \<open>
  Claim C2, amended. Every call of \<open>generateWithSchema\<close> is either fulfilled with
  exactly the value the whole trimmed reply decodes to, or rejected with a plain
  \<open>Error\<close> whose message has one of three forms: \<open>API Error during <context>:
  <message>\<close>, \<open>An unknown error occurred during <context>.\<close>, or \<open>The API
  returned an invalid format for <context>. Please try again.\<close>. The first form is
  what a backend call that threw an \<open>Error\<close> gives, with the remote message; the
  second what a backend call that threw anything else gives; the third what a reply
  gives whose trimmed text does not decode; and a reply whose trimmed text decodes
  to \<open>v\<close> gives \<open>v\<close>, all of it. Nothing is checked against the schema: the result
  is the same whatever schema was declared.
\<close>

theorem generateWithSchema_outcomes:
  "((\<exists>reply v. response = Responds reply \<and> JSON_parse (trim reply) = Some v
        \<and> snd (generateWithSchema JSON_parse response schema feature) = Inr v)
    \<or> (\<exists>m. snd (generateWithSchema JSON_parse response schema feature)
            = Inl (Error ((str ''API Error during '') @ feature @ (str '': '') @ m)))
    \<or> snd (generateWithSchema JSON_parse response schema feature)
            = Inl (Error ((str ''An unknown error occurred during '') @ feature @ (str ''.'')))
    \<or> snd (generateWithSchema JSON_parse response schema feature)
            = Inl (Error ((str ''The API returned an invalid format for '') @ feature @
                          (str ''. Please try again.''))))
   \<and> (\<forall>m. response = Rejects (ErrorInstance m) \<longrightarrow>
          snd (generateWithSchema JSON_parse response schema feature)
            = Inl (Error ((str ''API Error during '') @ feature @ (str '': '') @ m)))
   \<and> (\<forall>x. response = Rejects (OtherValue x) \<longrightarrow>
          snd (generateWithSchema JSON_parse response schema feature)
            = Inl (Error ((str ''An unknown error occurred during '') @ feature @ (str ''.''))))
   \<and> (\<forall>reply. response = Responds reply \<and> JSON_parse (trim reply) = None \<longrightarrow>
          snd (generateWithSchema JSON_parse response schema feature)
            = Inl (Error ((str ''The API returned an invalid format for '') @ feature @
                          (str ''. Please try again.''))))
   \<and> (\<forall>reply v. response = Responds reply \<and> JSON_parse (trim reply) = Some v \<longrightarrow>
          snd (generateWithSchema JSON_parse response schema feature) = Inr v)
   \<and> generateWithSchema JSON_parse response schema feature
       = generateWithSchema JSON_parse response schema' feature"
proof -
  have same: "generateWithSchema JSON_parse response schema feature
       = generateWithSchema JSON_parse response schema' feature"
    by (simp add: generateWithSchema_def)
  have thrown_error: "\<forall>m. response = Rejects (ErrorInstance m) \<longrightarrow>
          snd (generateWithSchema JSON_parse response schema feature)
            = Inl (Error ((str ''API Error during '') @ feature @ (str '': '') @ m))"
    by (simp add: generateWithSchema_Rejects)
  have thrown_other: "\<forall>x. response = Rejects (OtherValue x) \<longrightarrow>
          snd (generateWithSchema JSON_parse response schema feature)
            = Inl (Error ((str ''An unknown error occurred during '') @ feature @ (str ''.'')))"
    by (simp add: generateWithSchema_Rejects)
  have undecodable: "\<forall>reply. response = Responds reply \<and> JSON_parse (trim reply) = None \<longrightarrow>
          snd (generateWithSchema JSON_parse response schema feature)
            = Inl (Error ((str ''The API returned an invalid format for '') @ feature @
                          (str ''. Please try again.'')))"
    by (simp add: generateWithSchema_Responds)
  have decoded: "\<forall>reply v. response = Responds reply \<and> JSON_parse (trim reply) = Some v \<longrightarrow>
          snd (generateWithSchema JSON_parse response schema feature) = Inr v"
    by (simp add: generateWithSchema_Responds)
  have all: "(\<exists>reply v. response = Responds reply \<and> JSON_parse (trim reply) = Some v
        \<and> snd (generateWithSchema JSON_parse response schema feature) = Inr v)
    \<or> (\<exists>m. snd (generateWithSchema JSON_parse response schema feature)
            = Inl (Error ((str ''API Error during '') @ feature @ (str '': '') @ m)))
    \<or> snd (generateWithSchema JSON_parse response schema feature)
            = Inl (Error ((str ''An unknown error occurred during '') @ feature @ (str ''.'')))
    \<or> snd (generateWithSchema JSON_parse response schema feature)
            = Inl (Error ((str ''The API returned an invalid format for '') @ feature @
                          (str ''. Please try again.'')))"
  proof (cases response)
    case (Rejects e)
    then show ?thesis
      by (cases e) (simp_all add: generateWithSchema_Rejects)
  next
    case (RespondsWithoutText m)
    then show ?thesis
      by (simp add: generateWithSchema_RespondsWithoutText)
  next
    case (Responds reply)
    then show ?thesis
      by (cases "JSON_parse (trim reply)") (simp_all add: generateWithSchema_Responds)
  qed
  from all thrown_error thrown_other undecodable decoded same show ?thesis
    by (intro conjI)
qed

theorem generateWithSchema_outcomes_witness:
  "snd (generateWithSchema JSON_parse_sample (Responds (str '' [] '')) flashcardSchema
          (str ''flashcard generation'')) = Inr (JArr [])
   \<and> generateWithSchema JSON_parse_sample (Responds (str '' [] '')) flashcardSchema
          (str ''flashcard generation'')
     = generateWithSchema JSON_parse_sample (Responds (str '' [] '')) mcqSchema
          (str ''flashcard generation'')"
proof -
  have dec: "JSON_parse_sample (trim (str '' [] '')) = Some (JArr [])"
    by (simp add: JSON_parse_sample_def trim_def isWhiteSpace_def str_def)
  note inst = generateWithSchema_outcomes [where JSON_parse = JSON_parse_sample
      and response = "Responds (str '' [] '')" and schema = flashcardSchema
      and schema' = mcqSchema and feature = "(str ''flashcard generation'')"]
  from inst dec
  have "snd (generateWithSchema JSON_parse_sample (Responds (str '' [] '')) flashcardSchema
          (str ''flashcard generation'')) = Inr (JArr [])"
    by blast
  moreover from inst
  have "generateWithSchema JSON_parse_sample (Responds (str '' [] '')) flashcardSchema
          (str ''flashcard generation'')
     = generateWithSchema JSON_parse_sample (Responds (str '' [] '')) mcqSchema
          (str ''flashcard generation'')"
    by blast
  ultimately show ?thesis
    by (rule conjI)
qed

subsection \<open>Trimming, decoding and the malformed reply\<close>

text \<open>
  What the client does with a response that carries text. The text is first
  stripped of white space at both ends (it is the trimmed text with white space
  around it, and the trimmed text neither starts nor ends with white space) and the
  decoder is applied to the trimmed text: if it decodes, the call is fulfilled with
  the decoded value. If it does not, the call is rejected with an error whose
  message names the calling feature and is the same for every text that fails to
  decode, so it shows nothing of the text; the text that failed is written to the
  console.
\<close>

lemma decode_after_trim:
  "(\<exists>l r. reply = l @ trim reply @ r \<and> list_all isWhiteSpace l \<and> list_all isWhiteSpace r)
   \<and> (trim reply \<noteq> [] \<longrightarrow>
         \<not> isWhiteSpace (hd (trim reply)) \<and> \<not> isWhiteSpace (last (trim reply)))
   \<and> (\<forall>v. JSON_parse (trim reply) = Some v \<longrightarrow>
         snd (generateWithSchema JSON_parse (Responds reply) schema feature) = Inr v)
   \<and> (JSON_parse (trim reply) = None \<longrightarrow>
         snd (generateWithSchema JSON_parse (Responds reply) schema feature)
           = Inl (Error ((str ''The API returned an invalid format for '') @ feature @
                         (str ''. Please try again.'')))
       \<and> [Text (str ''Received malformed text from API:''), Text (trim reply)]
           \<in> set (fst (generateWithSchema JSON_parse (Responds reply) schema feature))
       \<and> (\<forall>other. JSON_parse (trim other) = None \<longrightarrow>
             snd (generateWithSchema JSON_parse (Responds other) schema feature)
               = snd (generateWithSchema JSON_parse (Responds reply) schema feature)))"
  using trim_decomposition [of reply] trim_ends [of reply]
  by (simp add: generateWithSchema_Responds)

text \<open>
  Claim C3 speaks of every call that succeeds at the network level: its text is
  trimmed and decoded, and what cannot be decoded is reported as a malformed
  response. The source keeps the two failure points apart on purpose (the inner
  \<open>try\<close> is there because parsing \<open>is a separate failure point\<close>), and does so for
  every response that carries text, as the lemma above shows. It misses the
  response that carries none: \<open>response.text.trim()\<close> stands before the inner
  \<open>try\<close>, so its \<open>TypeError\<close> falls to the outer \<open>catch\<close> and the successful call is
  reported as a failed one. With the message that V8 gives to the \<open>TypeError\<close>:
  nothing is trimmed or decoded, the rejection is the \<open>API Error\<close> of
  \<open>handleApiError\<close> and not the invalid-format error, and the console holds the
  line of \<open>handleApiError\<close> only. A reply with text that is no JSON, next to it,
  gets the invalid-format error.
\<close>

theorem response_without_text_reported_as_api_error:
  "generateWithSchema JSON_parse_sample
     (RespondsWithoutText ((str ''Cannot read properties of undefined (reading '') @ [0x27] @
                           (str ''trim'') @ [0x27] @ (str '')'')))
     flashcardSchema (str ''flashcard generation'')
   = ([[Text ((str ''Error during '') @ [0x27] @ (str ''flashcard generation'') @ [0x27] @
              (str '':'')),
        Caught (ErrorInstance ((str ''Cannot read properties of undefined (reading '') @ [0x27] @
                               (str ''trim'') @ [0x27] @ (str '')'')))]],
      Inl (Error ((str ''API Error during flashcard generation: '') @
                  (str ''Cannot read properties of undefined (reading '') @ [0x27] @
                  (str ''trim'') @ [0x27] @ (str '')''))))
   \<and> snd (generateWithSchema JSON_parse_sample
            (RespondsWithoutText ((str ''Cannot read properties of undefined (reading '') @
                                  [0x27] @ (str ''trim'') @ [0x27] @ (str '')'')))
            flashcardSchema (str ''flashcard generation''))
       \<noteq> Inl (Error (str
            ''The API returned an invalid format for flashcard generation. Please try again.''))
   \<and> snd (generateWithSchema JSON_parse_sample (Responds (str ''Sorry, I cannot help.''))
            flashcardSchema (str ''flashcard generation''))
       = Inl (Error (str
            ''The API returned an invalid format for flashcard generation. Please try again.''))"
  by (simp add: generateWithSchema_def JSON_parse_sample_def trim_def isWhiteSpace_def str_def)

subsection \<open>The lenient empty default\<close>

text \<open>
  Claim C4. For semantic search, flashcard generation and MCQ generation: when the
  backend answers, its trimmed reply decodes to a value that is not an array, and
  that value is \<open>null\<close> or has no field of the name the entry point unwraps
  (\<open>snippets\<close>, \<open>flashcards\<close>, \<open>mcqs\<close>), the call is fulfilled with the empty array
  instead of being rejected.
\<close>

theorem lenient_empty_collection:
  assumes "JSON_parse (trim reply) = Some v" and "\<not> isArray v"
  shows "(v = JNull \<or> \<not> has_field v (str ''snippets'') \<longrightarrow>
            snd (performSemanticSearch JSON_parse (Responds reply)) = Inr (JArr []))
       \<and> (v = JNull \<or> \<not> has_field v (str ''flashcards'') \<longrightarrow>
            snd (generateFlashcards JSON_parse (Responds reply)) = Inr (JArr []))
       \<and> (v = JNull \<or> \<not> has_field v (str ''mcqs'') \<longrightarrow>
            snd (generateMCQs JSON_parse (Responds reply)) = Inr (JArr []))"
  using assms
  by (auto simp: performSemanticSearch_def generateFlashcards_def generateMCQs_def
      generateWithSchema_decoded await_then_def optional_get_absent)

theorem lenient_empty_collection_witness:
  "JSON_parse_sample (trim (str ''null'')) = Some JNull \<and> \<not> isArray JNull
   \<and> snd (performSemanticSearch JSON_parse_sample (Responds (str ''null''))) = Inr (JArr [])
   \<and> snd (generateFlashcards JSON_parse_sample (Responds (str ''null''))) = Inr (JArr [])
   \<and> snd (generateMCQs JSON_parse_sample (Responds (str ''null''))) = Inr (JArr [])"
proof -
  have dec: "JSON_parse_sample (trim (str ''null'')) = Some JNull"
    by (simp add: JSON_parse_sample_def trim_def isWhiteSpace_def str_def)
  have noarr: "\<not> isArray JNull"
    by simp
  from lenient_empty_collection [where JSON_parse = JSON_parse_sample, OF dec noarr] dec
  show ?thesis
    by simp
qed

subsection \<open>Error messages\<close>

text \<open>
  Claim C7, as the specification states it: whenever the remote call fails, the
  error given to the caller has a message that is prefixed with the feature's name
  and wraps the remote error's message. \<open>handleApiError\<close> does this for \<open>Error\<close>
  objects only. When the backend call throws the string \<open>quota exceeded\<close>, which
  is not an \<open>Error\<close>, the message is the fallback sentence: it does not start with
  the feature's name and holds nothing of what was thrown.
\<close>

theorem thrown_value_not_wrapped:
  "snd (generateWithSchema JSON_parse_sample
          (Rejects (OtherValue (JStr (str ''quota exceeded''))))
          flashcardSchema (str ''flashcard generation''))
     = Inl (Error (str ''An unknown error occurred during flashcard generation.''))
   \<and> \<not> prefix (str ''flashcard generation'')
          (str ''An unknown error occurred during flashcard generation.'')
   \<and> \<not> sublist (str ''quota exceeded'')
          (str ''An unknown error occurred during flashcard generation.'')"
  by (simp add: generateWithSchema_def sublist_Cons_right str_def)

text \<open>
  Claim C7, amended. When the remote call throws an \<open>Error\<close>, the error given to the
  caller has the message \<open>API Error during <context>: <remote message>\<close>: the
  fixed words, then the name of the feature, then the remote message. When it
  throws a value that is not an \<open>Error\<close>, the message is \<open>An unknown error
  occurred during <context>.\<close>, with nothing of the thrown value. When the call
  succeeds and the text of the response, trimmed, does not decode, the message is
  \<open>The API returned an invalid format for <context>. Please try again.\<close>, which
  differs from every message \<open>handleApiError\<close> can produce, whatever was thrown and
  whatever the feature. The entry points built on \<open>generateWithSchema\<close> pass on
  every rejection of it unchanged, each with its own context. (A response that
  carries no text is not spoken of here.)
\<close>

theorem failure_messages:
  "snd (generateWithSchema JSON_parse (Rejects (ErrorInstance m)) schema feature)
      = Inl (Error ((str ''API Error during '') @ feature @ (str '': '') @ m))
   \<and> snd (generateWithSchema JSON_parse (Rejects (OtherValue x)) schema feature)
      = Inl (Error ((str ''An unknown error occurred during '') @ feature @ (str ''.'')))
   \<and> (JSON_parse (trim reply) = None \<longrightarrow>
         snd (generateWithSchema JSON_parse (Responds reply) schema feature)
           = Inl (Error ((str ''The API returned an invalid format for '') @ feature @
                         (str ''. Please try again.'')))
       \<and> (\<forall>e feature'.
             snd (generateWithSchema JSON_parse (Responds reply) schema feature)
               \<noteq> snd (handleApiError e feature' :: json promise)))
   \<and> (\<forall>err. snd (generateWithSchema JSON_parse response flashcardSchema
                    (str ''flashcard generation'')) = Inl err \<longrightarrow>
          snd (generateFlashcards JSON_parse response) = Inl err)
   \<and> (\<forall>err. snd (generateWithSchema JSON_parse response mcqSchema
                    (str ''MCQ generation'')) = Inl err \<longrightarrow>
          snd (generateMCQs JSON_parse response) = Inl err)
   \<and> (\<forall>err. snd (generateWithSchema JSON_parse response searchSchema
                    (str ''semantic search'')) = Inl err \<longrightarrow>
          snd (performSemanticSearch JSON_parse response) = Inl err)
   \<and> (\<forall>err. snd (generateWithSchema JSON_parse response conceptMapSchema
                    (str ''concept map generation'')) = Inl err \<longrightarrow>
          snd (generateConceptMapData JSON_parse response) = Inl err)
   \<and> (\<forall>err. snd (generateWithSchema JSON_parse response conceptMapSchema
                    ((str ''concept map generation for topic '') @ [0x22] @ topic @ [0x22]))
                = Inl err \<longrightarrow>
          snd (generateConceptMapForTopic JSON_parse response topic) = Inl err)"
proof -
  have distinct: "snd (generateWithSchema JSON_parse (Responds reply) schema feature)
      \<noteq> snd (handleApiError e' feature' :: json promise)"
    if "JSON_parse (trim reply) = None" for e' feature'
    using that by (cases e') (simp_all add: generateWithSchema_Responds str_def)
  have thrown_error:
    "snd (generateWithSchema JSON_parse (Rejects (ErrorInstance m)) schema feature)
      = Inl (Error ((str ''API Error during '') @ feature @ (str '': '') @ m))"
    by (simp add: generateWithSchema_Rejects)
  have thrown_other:
    "snd (generateWithSchema JSON_parse (Rejects (OtherValue x)) schema feature)
      = Inl (Error ((str ''An unknown error occurred during '') @ feature @ (str ''.'')))"
    by (simp add: generateWithSchema_Rejects)
  have malformed: "JSON_parse (trim reply) = None \<longrightarrow>
         snd (generateWithSchema JSON_parse (Responds reply) schema feature)
           = Inl (Error ((str ''The API returned an invalid format for '') @ feature @
                         (str ''. Please try again.'')))
       \<and> (\<forall>e feature'.
             snd (generateWithSchema JSON_parse (Responds reply) schema feature)
               \<noteq> snd (handleApiError e feature' :: json promise))"
  proof (intro impI conjI allI)
    assume undecodable: "JSON_parse (trim reply) = None"
    then show "snd (generateWithSchema JSON_parse (Responds reply) schema feature)
           = Inl (Error ((str ''The API returned an invalid format for '') @ feature @
                         (str ''. Please try again.'')))"
      by (simp add: generateWithSchema_Responds)
    fix e' feature'
    from undecodable
    show "snd (generateWithSchema JSON_parse (Responds reply) schema feature)
        \<noteq> snd (handleApiError e' feature' :: json promise)"
      by (rule distinct)
  qed
  have entries:
    "\<forall>err. snd (generateWithSchema JSON_parse response flashcardSchema
                    (str ''flashcard generation'')) = Inl err \<longrightarrow>
          snd (generateFlashcards JSON_parse response) = Inl err"
    "\<forall>err. snd (generateWithSchema JSON_parse response mcqSchema
                    (str ''MCQ generation'')) = Inl err \<longrightarrow>
          snd (generateMCQs JSON_parse response) = Inl err"
    "\<forall>err. snd (generateWithSchema JSON_parse response searchSchema
                    (str ''semantic search'')) = Inl err \<longrightarrow>
          snd (performSemanticSearch JSON_parse response) = Inl err"
    "\<forall>err. snd (generateWithSchema JSON_parse response conceptMapSchema
                    (str ''concept map generation'')) = Inl err \<longrightarrow>
          snd (generateConceptMapData JSON_parse response) = Inl err"
    "\<forall>err. snd (generateWithSchema JSON_parse response conceptMapSchema
                    ((str ''concept map generation for topic '') @ [0x22] @ topic @ [0x22]))
                = Inl err \<longrightarrow>
          snd (generateConceptMapForTopic JSON_parse response topic) = Inl err"
    unfolding generateFlashcards_def generateMCQs_def performSemanticSearch_def
      generateConceptMapData_def generateConceptMapForTopic_def
    by (blast intro: await_then_rejected)+
  from thrown_error thrown_other malformed entries show ?thesis
    by (intro conjI)
qed

theorem failure_messages_witness:
  "snd (generateWithSchema JSON_parse_sample (Rejects (ErrorInstance (str ''quota exceeded'')))
          searchSchema (str ''semantic search''))
      = Inl (Error (str ''API Error during semantic search: quota exceeded''))
   \<and> JSON_parse_sample (trim (str ''Sorry, I cannot help.'')) = None
   \<and> snd (generateWithSchema JSON_parse_sample (Responds (str ''Sorry, I cannot help.''))
          searchSchema (str ''semantic search''))
      = Inl (Error (str
           ''The API returned an invalid format for semantic search. Please try again.''))
   \<and> snd (performSemanticSearch JSON_parse_sample (Responds (str ''Sorry, I cannot help.'')))
      = Inl (Error (str
           ''The API returned an invalid format for semantic search. Please try again.''))"
proof -
  have dec: "JSON_parse_sample (trim (str ''Sorry, I cannot help.'')) = None"
    by (simp add: JSON_parse_sample_def trim_def isWhiteSpace_def str_def)
  note inst = failure_messages [where JSON_parse = JSON_parse_sample
      and m = "(str ''quota exceeded'')" and schema = searchSchema
      and feature = "(str ''semantic search'')" and reply = "(str ''Sorry, I cannot help.'')"
      and response = "Responds (str ''Sorry, I cannot help.'')"]
  from inst have thrown:
    "snd (generateWithSchema JSON_parse_sample (Rejects (ErrorInstance (str ''quota exceeded'')))
          searchSchema (str ''semantic search''))
      = Inl (Error ((str ''API Error during '') @ (str ''semantic search'') @ (str '': '') @
                    (str ''quota exceeded'')))"
    by blast
  from inst dec have undecodable:
    "snd (generateWithSchema JSON_parse_sample (Responds (str ''Sorry, I cannot help.''))
          searchSchema (str ''semantic search''))
      = Inl (Error ((str ''The API returned an invalid format for '') @
                    (str ''semantic search'') @ (str ''. Please try again.'')))"
    by blast
  with inst have passed:
    "snd (performSemanticSearch JSON_parse_sample (Responds (str ''Sorry, I cannot help.'')))
      = Inl (Error ((str ''The API returned an invalid format for '') @
                    (str ''semantic search'') @ (str ''. Please try again.'')))"
    by blast
  from thrown undecodable passed dec show ?thesis
    by (simp add: str_def)
qed

subsection \<open>Multiple-choice questions\<close>

text \<open>
  Claim C8, as the specification states it: every MCQ returned by MCQ generation
  has exactly four options, all strings, exactly one of which equals
  \<open>correctAnswer\<close>. The client passes on what the backend produced: a reply that
  is an array with one MCQ of a single option, none of them the correct answer,
  conforms to the schema that was sent and is returned as it is.
\<close>

theorem mcq_shape_not_enforced:
  \<open>snd (generateMCQs JSON_parse_sample
      (Responds (str ''[{"question":"Q","options":["a"],"correctAnswer":"z","explanation":"E"}]'')))
    = Inr (JArr [JObj [(str ''question'', JStr (str ''Q'')), (str ''options'', JArr [JStr (str ''a'')]),
                       (str ''correctAnswer'', JStr (str ''z'')), (str ''explanation'', JStr (str ''E''))]])
   \<and> \<not> spec_mcq_well_formed
         (JObj [(str ''question'', JStr (str ''Q'')), (str ''options'', JArr [JStr (str ''a'')]),
                (str ''correctAnswer'', JStr (str ''z'')), (str ''explanation'', JStr (str ''E''))])
   \<and> spec_satisfies_schema mcqSchema
         (JArr [JObj [(str ''question'', JStr (str ''Q'')), (str ''options'', JArr [JStr (str ''a'')]),
                      (str ''correctAnswer'', JStr (str ''z'')), (str ''explanation'', JStr (str ''E''))]])\<close>
  by (simp add: JSON_parse_sample_def trim_def isWhiteSpace_def str_def generateMCQs_def
      generateWithSchema_def await_then_def spec_mcq_well_formed_def mcqSchema_def)

text \<open>
  Claim C8, amended. MCQ generation returns the MCQs of the backend's reply unchanged
  and unchecked: when the call is fulfilled with an array, that array is the decoded
  reply itself, or the value of its \<open>mcqs\<close> field, or else it is the empty default.
  So a returned MCQ has four options with exactly one matching \<open>correctAnswer\<close>
  only if the backend produced it so; the client asks for this in the prompt and
  does not enforce it.
\<close>

theorem mcqs_passed_through:
  assumes "JSON_parse (trim reply) = Some v"
      and "snd (generateMCQs JSON_parse (Responds reply)) = Inr (JArr ms)"
  shows "v = JArr ms \<or> optional_get v (str ''mcqs'') = Some (JArr ms) \<or> ms = []"
  using assms
  by (cases "optional_get v (str ''mcqs'')")
     (auto simp: generateMCQs_def generateWithSchema_decoded await_then_def split: if_splits)

theorem mcqs_passed_through_witness:
  \<open>JSON_parse_sample
      (trim (str ''[{"question":"Q","options":["a"],"correctAnswer":"z","explanation":"E"}]''))
     = Some (JArr [JObj [(str ''question'', JStr (str ''Q'')), (str ''options'', JArr [JStr (str ''a'')]),
                         (str ''correctAnswer'', JStr (str ''z'')), (str ''explanation'', JStr (str ''E''))]])
   \<and> snd (generateMCQs JSON_parse_sample
        (Responds (str ''[{"question":"Q","options":["a"],"correctAnswer":"z","explanation":"E"}]'')))
     = Inr (JArr [JObj [(str ''question'', JStr (str ''Q'')), (str ''options'', JArr [JStr (str ''a'')]),
                        (str ''correctAnswer'', JStr (str ''z'')), (str ''explanation'', JStr (str ''E''))]])
   \<and> (JArr [JObj [(str ''question'', JStr (str ''Q'')), (str ''options'', JArr [JStr (str ''a'')]),
                  (str ''correctAnswer'', JStr (str ''z'')), (str ''explanation'', JStr (str ''E''))]]
        = JArr [JObj [(str ''question'', JStr (str ''Q'')), (str ''options'', JArr [JStr (str ''a'')]),
                      (str ''correctAnswer'', JStr (str ''z'')), (str ''explanation'', JStr (str ''E''))]]
      \<or> optional_get
           (JArr [JObj [(str ''question'', JStr (str ''Q'')), (str ''options'', JArr [JStr (str ''a'')]),
                        (str ''correctAnswer'', JStr (str ''z'')), (str ''explanation'', JStr (str ''E''))]])
           (str ''mcqs'')
         = Some (JArr [JObj [(str ''question'', JStr (str ''Q'')), (str ''options'', JArr [JStr (str ''a'')]),
                             (str ''correctAnswer'', JStr (str ''z'')), (str ''explanation'', JStr (str ''E''))]])
      \<or> [JObj [(str ''question'', JStr (str ''Q'')), (str ''options'', JArr [JStr (str ''a'')]),
                (str ''correctAnswer'', JStr (str ''z'')), (str ''explanation'', JStr (str ''E''))]] = [])\<close>
proof -
  let ?m = "JObj [(str ''question'', JStr (str ''Q'')), (str ''options'', JArr [JStr (str ''a'')]),
                  (str ''correctAnswer'', JStr (str ''z'')), (str ''explanation'', JStr (str ''E''))]"
  have dec: \<open>JSON_parse_sample
      (trim (str ''[{"question":"Q","options":["a"],"correctAnswer":"z","explanation":"E"}]''))
     = Some (JArr [?m])\<close>
    by (simp add: JSON_parse_sample_def trim_def isWhiteSpace_def str_def)
  have res: \<open>snd (generateMCQs JSON_parse_sample
        (Responds (str ''[{"question":"Q","options":["a"],"correctAnswer":"z","explanation":"E"}]'')))
     = Inr (JArr [?m])\<close>
    using dec by (simp add: generateMCQs_def generateWithSchema_decoded await_then_def)
  from mcqs_passed_through [where JSON_parse = JSON_parse_sample, OF dec res] dec res
  show ?thesis
    by blast
qed

subsection \<open>Concept maps: the empty default\<close>

text \<open>
  Claim C10. For both concept map entry points (from ingested text and from a topic):
  when the backend answers and its trimmed text decodes to a falsy JSON value
  (\<open>null\<close>, \<open>false\<close>, \<open>0\<close> or the empty string), the call is fulfilled, not rejected,
  and its value is the empty concept map \<open>{nodes: [], links: []}\<close>.
\<close>

theorem conceptMap_falsy_gives_empty_map:
  assumes "JSON_parse (trim reply) = Some v" and "\<not> truthy v"
  shows "snd (generateConceptMapData JSON_parse (Responds reply))
           = Inr (JObj [(str ''nodes'', JArr []), (str ''links'', JArr [])])
       \<and> snd (generateConceptMapForTopic JSON_parse (Responds reply) topic)
           = Inr (JObj [(str ''nodes'', JArr []), (str ''links'', JArr [])])"
  using assms
  by (simp add: generateConceptMapData_def generateConceptMapForTopic_def
      generateWithSchema_decoded await_then_def emptyConceptMap_def)

theorem conceptMap_falsy_gives_empty_map_witness:
  "JSON_parse_sample (trim (str '' null '')) = Some JNull \<and> \<not> truthy JNull
   \<and> snd (generateConceptMapData JSON_parse_sample (Responds (str '' null '')))
        = Inr (JObj [(str ''nodes'', JArr []), (str ''links'', JArr [])])
   \<and> snd (generateConceptMapForTopic JSON_parse_sample (Responds (str '' null '')) (str ''Cells''))
        = Inr (JObj [(str ''nodes'', JArr []), (str ''links'', JArr [])])"
proof -
  have dec: "JSON_parse_sample (trim (str '' null '')) = Some JNull"
    by (simp add: JSON_parse_sample_def trim_def isWhiteSpace_def str_def)
  have falsy: "\<not> truthy JNull"
    by simp
  from conceptMap_falsy_gives_empty_map [where JSON_parse = JSON_parse_sample
      and reply = "(str '' null '')" and v = JNull and topic = "(str ''Cells'')", OF dec falsy] dec falsy
  show ?thesis by simp
qed

section \<open>Properties of the semantic search component\<close>

subsection \<open>The search history\<close>



subsection \<open>A search that fails\<close>

text \<open>
  Claim C6, as the specification states it: a failed search leaves the persisted
  state of the feature, the search history included, unchanged. \<open>runSearch\<close> calls
  \<open>updateSearchHistory\<close> before it awaits the search. Starting with an empty
  history and an empty store, a search for \<open>light\<close> whose backend call fails
  leaves \<open>light\<close> in the history and in the store.
\<close>

theorem failed_search_changes_history:
  "searchHistory (snd (runSearch JSON_parse_sample toLowerCase_sample
       (Rejects (ErrorInstance (str ''quota exceeded''))) 0 (str ''light'')
       (initialState\<lparr>ingestedText := Some (str ''Photosynthesis'')\<rparr>))) = [(str ''light'')]
   \<and> localStorage (snd (runSearch JSON_parse_sample toLowerCase_sample
       (Rejects (ErrorInstance (str ''quota exceeded''))) 0 (str ''light'')
       (initialState\<lparr>ingestedText := Some (str ''Photosynthesis'')\<rparr>)))
         SEARCH_HISTORY_KEY = Some [(str ''light'')]
   \<and> searchHistory (initialState\<lparr>ingestedText := Some (str ''Photosynthesis'')\<rparr>) = []
   \<and> localStorage (initialState\<lparr>ingestedText := Some (str ''Photosynthesis'')\<rparr>)
         SEARCH_HISTORY_KEY = None"
  by (simp add: runSearch_def initialState_def trim_def isWhiteSpace_def str_def
      performSemanticSearch_def generateWithSchema_def await_then_def
      updateSearchHistory_def updatedHistory_def addNotification_def Let_def)

text \<open>
  Claim C6, amended. When there is ingested text, the query is not blank (its
  trimmed form is not empty) and the search is rejected with an error, \<open>runSearch\<close>
  ends in the state it started from with exactly these changes: the error's message
  has been appended as a notification of type \<open>error\<close>; the results are empty; the
  loading flag is off; the attempt is marked; and the query has been recorded in
  the search history, in memory and in the store, as it is for a search that
  succeeds. Nothing of the failed attempt's result is kept, but the history is not
  left unchanged.
\<close>

theorem failed_search_state:
  assumes "ingestedText st = Some material" and "material \<noteq> []"
      and "trim currentQuery \<noteq> []"
      and "snd (performSemanticSearch JSON_parse response) = Inl e"
  shows "snd (runSearch JSON_parse toLowerCase response now currentQuery st) =
     st\<lparr>notifications := notifications st @
            [\<lparr>note_id = now, note_message = message e, note_type = error\<rparr>],
         isLoading := False,
         results := JArr [],
         searchAttempted := True,
         searchHistory := updatedHistory toLowerCase (searchHistory st) currentQuery,
         localStorage := (localStorage st)
            (SEARCH_HISTORY_KEY \<mapsto>
               updatedHistory toLowerCase (searchHistory st) currentQuery)\<rparr>"
proof -
  obtain out where p: "performSemanticSearch JSON_parse response = (out, Inl e)"
    using assms(4) by (cases "performSemanticSearch JSON_parse response") auto
  show ?thesis
    using assms(1-3)
    by (simp add: runSearch_def p updateSearchHistory_def addNotification_def Let_def)
qed

theorem failed_search_state_witness:
  "trim (str ''light'') \<noteq> []
   \<and> snd (performSemanticSearch JSON_parse_sample
            (Rejects (ErrorInstance (str ''quota exceeded''))))
       = Inl (Error (str ''API Error during semantic search: quota exceeded''))
   \<and> snd (runSearch JSON_parse_sample toLowerCase_sample
            (Rejects (ErrorInstance (str ''quota exceeded''))) 7 (str ''light'')
            (initialState\<lparr>ingestedText := Some (str ''Photosynthesis'')\<rparr>))
       = initialState
           \<lparr>ingestedText := Some (str ''Photosynthesis''),
            notifications :=
              [\<lparr>note_id = 7,
                note_message = (str ''API Error during semantic search: quota exceeded''),
                note_type = error\<rparr>],
            searchAttempted := True,
            searchHistory := [(str ''light'')],
            localStorage := [SEARCH_HISTORY_KEY \<mapsto> [(str ''light'')]]\<rparr>"
proof -
  let ?st = "initialState\<lparr>ingestedText := Some (str ''Photosynthesis'')\<rparr>"
  have ingested: "ingestedText ?st = Some (str ''Photosynthesis'')"
    by simp
  have nonempty: "(str ''Photosynthesis'') \<noteq> []"
    by (simp add: str_def)
  have q: "trim (str ''light'') \<noteq> []"
    by (simp add: trim_def isWhiteSpace_def str_def)
  have fails: "snd (performSemanticSearch JSON_parse_sample
        (Rejects (ErrorInstance (str ''quota exceeded''))))
       = Inl (Error (str ''API Error during semantic search: quota exceeded''))"
    by (simp add: performSemanticSearch_def generateWithSchema_Rejects await_then_def str_def)
  from failed_search_state [where JSON_parse = JSON_parse_sample
      and toLowerCase = toLowerCase_sample and now = 7,
      OF ingested nonempty q fails] q fails
  show ?thesis
    by (simp add: initialState_def updatedHistory_def)
qed

section \<open>Properties of the scheduler\<close>

text \<open>
  Claim C9. For every scheduled flashcard, whatever its interval was, a review with
  grade \<open>Again\<close> sets the interval to the minimum of 1 day and lowers the ease
  factor by the fixed penalty, which is positive, but not below the floor of 1.3;
  and after any number of further \<open>Again\<close> grades, on any days, the ease factor
  is still at least 1.3 and the interval still 1 day.
\<close>

theorem again_resets_and_floors:
  "interval (review c Again today) = 1
   \<and> easeFactor (review c Again today) = max 1.3 (easeFactor c - AGAIN_PENALTY)
   \<and> 0 < AGAIN_PENALTY
   \<and> (1.3 \<le> easeFactor c - AGAIN_PENALTY \<longrightarrow>
         easeFactor (review c Again today) = easeFactor c - AGAIN_PENALTY)
   \<and> (\<forall>days. 1.3 \<le> easeFactor (fold (\<lambda>day c. review c Again day) days
                                     (review c Again today))
             \<and> interval (fold (\<lambda>day c. review c Again day) days
                                     (review c Again today)) = 1)"
proof -
  have start: "EASE_FLOOR \<le> easeFactor (review c Again today)"
    "interval (review c Again today) = MIN_INTERVAL"
    by simp_all
  have "\<forall>days. EASE_FLOOR \<le> easeFactor (fold (\<lambda>day c. review c Again day) days
                                     (review c Again today))
             \<and> interval (fold (\<lambda>day c. review c Again day) days
                                     (review c Again today)) = MIN_INTERVAL"
    using again_fold [OF start] by blast
  then show ?thesis
    by (simp add: EASE_FLOOR_def MIN_INTERVAL_def AGAIN_PENALTY_def)
qed

theorem again_resets_and_floors_witness:
  "interval sampleCard = 6
   \<and> interval (review sampleCard Again 100) = 1
   \<and> easeFactor (review sampleCard Again 100) = 2.3
   \<and> 1.3 \<le> easeFactor (fold (\<lambda>day c. review c Again day) [101, 102, 103, 104, 105, 106, 107]
                 (review sampleCard Again 100))"
proof -
  have "interval sampleCard = 6" and "easeFactor (review sampleCard Again 100) = 2.3"
    by (simp_all add: sampleCard_def EASE_FLOOR_def AGAIN_PENALTY_def)
  with again_resets_and_floors [of sampleCard 100]
  show ?thesis
    by blast
qed

end
